theory Spec2Isabelle
  imports Main "HOL-Library.Word" "HOL-Library.Sublist"
begin

unbundle bit_operations_syntax

section \<open>Common types\<close>

text \<open>
  The CRT is compiled for Windows (LLP64): \<open>DWORD\<close> is \<open>unsigned long\<close>, 32 bits wide;
  \<open>int\<close> is 32 bits; \<open>size_t\<close> and pointers are 64 bits on x86_64/ARM64 and 32 bits on
  x86/ARM (the \<open>static_assert\<close>s of crt_windows_internal.h).
\<close>

type_synonym DWORD = "32 word"
type_synonym c_int = "32 word"

datatype arch = X64 | ARM64 | X86 | ARM

text \<open>
  A call either returns a value, or it ends the process. The CRT ends the process in two
  ways: \<open>__fastfail(code)\<close> (not interceptable) and UCRT's \<open>_amsg_exit(code)\<close> (shows a
  runtime error message). Both are \<open>noreturn\<close>; the state at that moment is kept.
\<close>

datatype exit_path = FastFail DWORD | AmsgExit int

datatype ('a, 's) outcome = Returns 'a 's | Terminated exit_path 's

definition FastFailStackCookieCheckFailure :: DWORD where
  "FastFailStackCookieCheckFailure = 2"

section \<open>Security cookie (crt_windows_security.cpp)\<close>

definition DefaultSecurityCookie64 :: "64 word" where
  "DefaultSecurityCookie64 = 0x00002B992DDFA232"

definition DefaultSecurityCookie32 :: "32 word" where
  "DefaultSecurityCookie32 = 0xBB40E64E"

record 'c cookie_state =
  security_cookie :: 'c
  security_cookie_complement :: 'c

text \<open>The values the entropy sources return during one call of \<open>__security_init_cookie\<close>.\<close>

record 'c entropy =
  systime_dwLowDateTime :: DWORD
  systime_dwHighDateTime :: DWORD
  CurrentThreadId :: DWORD
  CurrentProcessId :: DWORD
  TickCount64 :: "64 word"
  perfctr_LowPart :: DWORD
  perfctr_HighPart :: DWORD
  stack_address :: 'c

definition systime_scalar :: "'c entropy \<Rightarrow> 64 word" where
  "systime_scalar e =
     push_bit 32 (ucast (systime_dwHighDateTime e)) OR ucast (systime_dwLowDateTime e)"

definition perfctr_QuadPart :: "'c entropy \<Rightarrow> 64 word" where
  "perfctr_QuadPart e =
     push_bit 32 (ucast (perfctr_HighPart e)) OR ucast (perfctr_LowPart e)"

definition report_gsfailure :: "'s \<Rightarrow> (unit, 's) outcome" where
  "report_gsfailure s = Terminated (FastFail FastFailStackCookieCheckFailure) s"

definition security_check_cookie ::
  "'c cookie_state \<Rightarrow> 'c \<Rightarrow> (unit, 'c cookie_state) outcome" where
  "security_check_cookie st cookie =
     (let expected = security_cookie st
      in if cookie \<noteq> expected then report_gsfailure st else Returns () st)"

text \<open>The 64-bit build (\<open>CRT_ARCH_X64\<close> or \<open>CRT_ARCH_ARM64\<close>).\<close>

definition gather_entropy_64 :: "64 word entropy \<Rightarrow> 64 word" where
  "gather_entropy_64 e =
     (let cookie = systime_scalar e;
          cookie = cookie XOR ucast (CurrentThreadId e);
          cookie = cookie XOR ucast (CurrentProcessId e);
          tickCount = TickCount64 e;
          cookie = cookie XOR push_bit 56 tickCount;
          cookie = cookie XOR tickCount;
          cookie = cookie XOR (push_bit 32 (ucast (perfctr_LowPart e)) XOR perfctr_QuadPart e);
          cookie = cookie XOR stack_address e;
          cookie = cookie AND 0x0000FFFFFFFFFFFF
      in if cookie = DefaultSecurityCookie64 then DefaultSecurityCookie64 + 1
         else if cookie = 0 then DefaultSecurityCookie64 + 1
         else cookie)"

definition security_init_cookie_64 :: "64 word entropy \<Rightarrow> 64 word cookie_state \<Rightarrow> 64 word cookie_state" where
  "security_init_cookie_64 e st =
     (if security_cookie st \<noteq> DefaultSecurityCookie64
      then st\<lparr>security_cookie_complement := NOT (security_cookie st)\<rparr>
      else let cookie = gather_entropy_64 e
           in st\<lparr>security_cookie := cookie, security_cookie_complement := NOT cookie\<rparr>)"

text \<open>
  The 32-bit builds. Only \<open>CRT_ARCH_X86\<close> adds the high-word test to the
  "already initialized" check; the final high-word repair is compiled for x86 and ARM.
\<close>

definition gather_entropy_32 :: "32 word entropy \<Rightarrow> 32 word" where
  "gather_entropy_32 e =
     (let cookie = systime_dwLowDateTime e XOR systime_dwHighDateTime e;
          cookie = cookie XOR CurrentThreadId e;
          cookie = cookie XOR CurrentProcessId e;
          tickCount = TickCount64 e;
          cookie = cookie XOR ucast tickCount;
          cookie = cookie XOR perfctr_LowPart e;
          cookie = cookie XOR perfctr_HighPart e;
          cookie = cookie XOR stack_address e
      in if cookie = DefaultSecurityCookie32 then DefaultSecurityCookie32 + 1
         else if cookie AND 0xFFFF0000 = 0 then cookie OR push_bit 16 (cookie OR 0x4711)
         else cookie)"

definition already_initialized_32 :: "arch \<Rightarrow> 32 word \<Rightarrow> bool" where
  "already_initialized_32 a c =
     (if a = X86 then c \<noteq> DefaultSecurityCookie32 \<and> c AND 0xFFFF0000 \<noteq> 0
      else c \<noteq> DefaultSecurityCookie32)"

definition security_init_cookie_32 ::
  "arch \<Rightarrow> 32 word entropy \<Rightarrow> 32 word cookie_state \<Rightarrow> 32 word cookie_state" where
  "security_init_cookie_32 a e st =
     (if already_initialized_32 a (security_cookie st)
      then st\<lparr>security_cookie_complement := NOT (security_cookie st)\<rparr>
      else let cookie = gather_entropy_32 e
           in st\<lparr>security_cookie := cookie, security_cookie_complement := NOT cookie\<rparr>)"

section \<open>TLS directory (crt_windows_tls.cpp)\<close>

text \<open>
  The declaration of \<open>struct CRT_IMAGE_TLS_DIRECTORY\<close>, as the list of its members in
  declaration order, each with its C type; and the initializer of \<open>_tls_used\<close>.
\<close>

datatype c_type = unsigned_int64 | DWORD_type

fun c_type_bits :: "c_type \<Rightarrow> nat" where
  "c_type_bits unsigned_int64 = 64"
| "c_type_bits DWORD_type = 32"

definition pointer_bits :: "arch \<Rightarrow> nat" where
  "pointer_bits a = (if a = X64 \<or> a = ARM64 then 64 else 32)"

definition CRT_IMAGE_TLS_DIRECTORY :: "arch \<Rightarrow> (string \<times> c_type) list" where
  "CRT_IMAGE_TLS_DIRECTORY a =
     (if a = X64 \<or> a = ARM64
      then [(''StartAddressOfRawData'', unsigned_int64),
            (''EndAddressOfRawData'', unsigned_int64),
            (''AddressOfIndex'', unsigned_int64),
            (''AddressOfCallBacks'', unsigned_int64),
            (''SizeOfZeroFill'', DWORD_type),
            (''Characteristics'', DWORD_type)]
      else [(''StartAddressOfRawData'', DWORD_type),
            (''EndAddressOfRawData'', DWORD_type),
            (''AddressOfIndex'', DWORD_type),
            (''AddressOfCallBacks'', DWORD_type),
            (''SizeOfZeroFill'', DWORD_type),
            (''Characteristics'', DWORD_type)])"

datatype initializer = AddressOf string | Constant nat

definition tls_used :: "initializer list" where
  "tls_used =
     [AddressOf ''_tls_start'', AddressOf ''_tls_end'', AddressOf ''_tls_index'',
      AddressOf ''__xl_a'', Constant 0, Constant 0]"

section \<open>Pseudo-relocation (crt_windows_pseudo_reloc.cpp)\<close>

text \<open>
  The relocation processor is modelled for the 64-bit build: addresses, \<open>size_t\<close> and
  \<open>ptrdiff_t\<close> are 64-bit words, pointer arithmetic wraps modulo \<open>2^64\<close>. Memory is
  byte-addressed and little-endian; \<open>__builtin_memcpy\<close> of an n-byte integer is a load or
  a store of n consecutive bytes.
\<close>

type_synonym addr = "64 word"
type_synonym memory = "addr \<Rightarrow> 8 word"

definition load8 :: "memory \<Rightarrow> addr \<Rightarrow> 8 word" where
  "load8 m a = m a"

definition load16 :: "memory \<Rightarrow> addr \<Rightarrow> 16 word" where
  "load16 m a = ucast (m a) OR push_bit 8 (ucast (m (a + 1)))"

definition load32 :: "memory \<Rightarrow> addr \<Rightarrow> 32 word" where
  "load32 m a =
     ucast (m a) OR push_bit 8 (ucast (m (a + 1))) OR push_bit 16 (ucast (m (a + 2)))
       OR push_bit 24 (ucast (m (a + 3)))"

definition load64 :: "memory \<Rightarrow> addr \<Rightarrow> 64 word" where
  "load64 m a =
     ucast (m a) OR push_bit 8 (ucast (m (a + 1))) OR push_bit 16 (ucast (m (a + 2)))
       OR push_bit 24 (ucast (m (a + 3))) OR push_bit 32 (ucast (m (a + 4)))
       OR push_bit 40 (ucast (m (a + 5))) OR push_bit 48 (ucast (m (a + 6)))
       OR push_bit 56 (ucast (m (a + 7)))"

definition store8 :: "memory \<Rightarrow> addr \<Rightarrow> 8 word \<Rightarrow> memory" where
  "store8 m a v = m(a := v)"

definition store16 :: "memory \<Rightarrow> addr \<Rightarrow> 16 word \<Rightarrow> memory" where
  "store16 m a v = m(a := ucast v, a + 1 := ucast (drop_bit 8 v))"

definition store32 :: "memory \<Rightarrow> addr \<Rightarrow> 32 word \<Rightarrow> memory" where
  "store32 m a v =
     m(a := ucast v, a + 1 := ucast (drop_bit 8 v), a + 2 := ucast (drop_bit 16 v),
       a + 3 := ucast (drop_bit 24 v))"

definition store64 :: "memory \<Rightarrow> addr \<Rightarrow> 64 word \<Rightarrow> memory" where
  "store64 m a v =
     m(a := ucast v, a + 1 := ucast (drop_bit 8 v), a + 2 := ucast (drop_bit 16 v),
       a + 3 := ucast (drop_bit 24 v), a + 4 := ucast (drop_bit 32 v),
       a + 5 := ucast (drop_bit 40 v), a + 6 := ucast (drop_bit 48 v),
       a + 7 := ucast (drop_bit 56 v))"

subsection \<open>The operating system's memory protection\<close>

text \<open>
  \<open>VirtualQuery\<close> and \<open>VirtualProtect\<close> are imported from kernel32.dll. The processor is
  modelled over any implementation of the two calls: \<open>VirtualQuery\<close> gives
  \<open>Some mbi.Protect\<close> when it returns at least \<open>sizeof(mbi)\<close>; \<open>VirtualProtect\<close> gives
  \<open>None\<close> when it fails and otherwise the new state of the system with the value it
  writes to \<open>lpflOldProtect\<close>.
\<close>

record 'os os_api =
  VirtualQuery :: "'os \<Rightarrow> addr \<Rightarrow> DWORD option"
  VirtualProtect :: "'os \<Rightarrow> addr \<Rightarrow> 64 word \<Rightarrow> DWORD \<Rightarrow> ('os \<times> DWORD) option"

definition kPageReadonly :: DWORD where "kPageReadonly = 0x02"
definition kPageReadwrite :: DWORD where "kPageReadwrite = 0x04"
definition kPageExecute :: DWORD where "kPageExecute = 0x10"
definition kPageExecuteRead :: DWORD where "kPageExecuteRead = 0x20"
definition kPageExecuteReadwrite :: DWORD where "kPageExecuteReadwrite = 0x40"

text \<open>
  The documented behaviour of the two calls, used for the concrete runs below:
  protection is an attribute of whole 4096-byte pages; \<open>VirtualProtect\<close> changes every
  page that holds a byte of the range, reports the previous protection of the first of
  them, and fails on an empty range or when a page of the range is not committed.
\<close>

type_synonym page_table = "64 word \<Rightarrow> DWORD option"

definition page_of :: "addr \<Rightarrow> 64 word" where
  "page_of a = drop_bit 12 a"

fun pages_committed :: "page_table \<Rightarrow> 64 word \<Rightarrow> nat \<Rightarrow> bool" where
  "pages_committed pt p 0 = True"
| "pages_committed pt p (Suc n) =
     (case pt p of None \<Rightarrow> False | Some _ \<Rightarrow> pages_committed pt (p + 1) n)"

fun protect_pages :: "page_table \<Rightarrow> 64 word \<Rightarrow> nat \<Rightarrow> DWORD \<Rightarrow> page_table" where
  "protect_pages pt p 0 prot = pt"
| "protect_pages pt p (Suc n) prot = protect_pages (pt(p \<mapsto> prot)) (p + 1) n prot"

definition paged_VirtualQuery :: "page_table \<Rightarrow> addr \<Rightarrow> DWORD option" where
  "paged_VirtualQuery pt a = pt (page_of a)"

definition paged_VirtualProtect ::
  "page_table \<Rightarrow> addr \<Rightarrow> 64 word \<Rightarrow> DWORD \<Rightarrow> (page_table \<times> DWORD) option" where
  "paged_VirtualProtect pt a sz newProtect =
     (if sz = 0 then None
      else if a + (sz - 1) < a then None
      else let first = page_of a;
               n = Suc (unat (page_of (a + (sz - 1)) - first))
           in case pt first of
                None \<Rightarrow> None
              | Some old \<Rightarrow>
                  if pages_committed pt first n
                  then Some (protect_pages pt first n newProtect, old)
                  else None)"

definition paged_os :: "page_table os_api" where
  "paged_os = \<lparr>VirtualQuery = paged_VirtualQuery, VirtualProtect = paged_VirtualProtect\<rparr>"

subsection \<open>Relocation records and the modified-section table\<close>

record PseudoRelocV1 =
  v1_addend :: DWORD
  v1_target :: DWORD

record PseudoRelocV2 =
  v2_sym :: DWORD
  v2_target :: DWORD
  v2_flags :: DWORD

definition kRelocFlagSize8 :: DWORD where "kRelocFlagSize8 = 8"
definition kRelocFlagSize16 :: DWORD where "kRelocFlagSize16 = 16"
definition kRelocFlagSize32 :: DWORD where "kRelocFlagSize32 = 32"
definition kRelocFlagSize64 :: DWORD where "kRelocFlagSize64 = 64"
definition kRelocFlagSizeMask :: DWORD where "kRelocFlagSizeMask = 0xFF"

definition kMaxModifiedSections :: nat where "kMaxModifiedSections = 64"

record ModifiedSection =
  ms_address :: addr
  ms_size :: "64 word"
  ms_oldProtect :: DWORD

text \<open>
  \<open>g_modifiedSections\<close> holds the first \<open>g_numModifiedSections\<close> slots of the array, in
  order; the count is the length of the list. \<open>debug_output\<close> collects the strings
  passed to \<open>OutputDebugStringA\<close>.
\<close>

record 'os reloc_state =
  memory_of :: memory
  os_of :: 'os
  g_modifiedSections :: "ModifiedSection list"
  debug_output :: "string list"

definition g_numModifiedSections :: "'os reloc_state \<Rightarrow> nat" where
  "g_numModifiedSections st = length (g_modifiedSections st)"

definition fatalErrorEarly :: "string \<Rightarrow> 'os reloc_state \<Rightarrow> ('a, 'os reloc_state) outcome" where
  "fatalErrorEarly msg st =
     Terminated (FastFail FastFailStackCookieCheckFailure)
       (st\<lparr>debug_output :=
             debug_output st @ [''FATAL: CRT initialization error: '', msg, [CHR 0x0A]]\<rparr>)"

definition getWritableProtection :: "DWORD \<Rightarrow> DWORD" where
  "getWritableProtection currentProtect =
     (let isExecutable =
            (currentProtect AND (kPageExecute OR kPageExecuteRead OR kPageExecuteReadwrite)
               \<noteq> 0)
      in if isExecutable then kPageExecuteReadwrite else kPageReadwrite)"

fun already_tracked :: "ModifiedSection list \<Rightarrow> addr \<Rightarrow> 64 word \<Rightarrow> bool" where
  "already_tracked [] newAddr sz = False"
| "already_tracked (s # ss) newAddr sz =
     (let start = ms_address s;
          stop = start + ms_size s
      in if start \<le> newAddr \<and> newAddr + sz \<le> stop then True
         else already_tracked ss newAddr sz)"

definition makeWritable ::
  "'os os_api \<Rightarrow> addr \<Rightarrow> 64 word \<Rightarrow> 'os reloc_state \<Rightarrow> (bool, 'os reloc_state) outcome" where
  "makeWritable api a sz st =
     (if already_tracked (g_modifiedSections st) a sz then Returns True st
      else if kMaxModifiedSections \<le> g_numModifiedSections st
      then fatalErrorEarly ''Pseudo-reloc: too many modified sections (limit 64)'' st
      else let newProtect =
                 (case VirtualQuery api (os_of st) a of
                    Some protect \<Rightarrow> getWritableProtection protect
                  | None \<Rightarrow> kPageReadwrite)
           in case VirtualProtect api (os_of st) a sz newProtect of
                None \<Rightarrow> Returns False st
              | Some (os', oldProtect) \<Rightarrow>
                  Returns True
                    (st\<lparr>os_of := os',
                        g_modifiedSections :=
                          g_modifiedSections st @
                            [\<lparr>ms_address = a, ms_size = sz, ms_oldProtect = oldProtect\<rparr>]\<rparr>))"

fun restore_each :: "'os os_api \<Rightarrow> ModifiedSection list \<Rightarrow> 'os \<Rightarrow> 'os" where
  "restore_each api [] os = os"
| "restore_each api (s # ss) os =
     (case VirtualProtect api os (ms_address s) (ms_size s) (ms_oldProtect s) of
        None \<Rightarrow> restore_each api ss os
      | Some (os', dummy) \<Rightarrow> restore_each api ss os')"

definition restoreProtections :: "'os os_api \<Rightarrow> 'os reloc_state \<Rightarrow> 'os reloc_state" where
  "restoreProtections api st =
     st\<lparr>os_of := restore_each api (g_modifiedSections st) (os_of st),
        g_modifiedSections := []\<rparr>"

subsection \<open>Applying relocations\<close>

definition read_PseudoRelocV1 :: "memory \<Rightarrow> addr \<Rightarrow> PseudoRelocV1" where
  "read_PseudoRelocV1 m p = \<lparr>v1_addend = load32 m p, v1_target = load32 m (p + 4)\<rparr>"

definition read_PseudoRelocV2 :: "memory \<Rightarrow> addr \<Rightarrow> PseudoRelocV2" where
  "read_PseudoRelocV2 m p =
     \<lparr>v2_sym = load32 m p, v2_target = load32 m (p + 4), v2_flags = load32 m (p + 8)\<rparr>"

text \<open>
  \<open>reloc_delta\<close> is the \<open>delta\<close> of \<open>applyRelocV2\<close>: the pointer stored at \<open>base + sym\<close>
  minus the address \<open>base + sym\<close>, as a \<open>ptrdiff_t\<close>.
\<close>

definition reloc_delta :: "memory \<Rightarrow> addr \<Rightarrow> PseudoRelocV2 \<Rightarrow> 64 word" where
  "reloc_delta m base reloc =
     (let symAddr = base + ucast (v2_sym reloc);
          actualAddr = load64 m symAddr
      in actualAddr - symAddr)"

definition applyRelocV2 ::
  "'os os_api \<Rightarrow> addr \<Rightarrow> PseudoRelocV2 \<Rightarrow> 'os reloc_state \<Rightarrow> (bool, 'os reloc_state) outcome" where
  "applyRelocV2 api base reloc st =
     (let delta = reloc_delta (memory_of st) base reloc;
          targetAddr = base + ucast (v2_target reloc);
          sz = v2_flags reloc AND kRelocFlagSizeMask
      in case makeWritable api targetAddr (ucast (sz div 8)) st of
           Terminated how st' \<Rightarrow> Terminated how st'
         | Returns writable st' \<Rightarrow>
             if writable then
               let m = memory_of st' in
               if sz = kRelocFlagSize8 then
                 Returns True
                   (st'\<lparr>memory_of := store8 m targetAddr (load8 m targetAddr + ucast delta)\<rparr>)
               else if sz = kRelocFlagSize16 then
                 Returns True
                   (st'\<lparr>memory_of := store16 m targetAddr (load16 m targetAddr + ucast delta)\<rparr>)
               else if sz = kRelocFlagSize32 then
                 let val = load32 m targetAddr;
                     newVal = (scast val :: 64 word) + delta
                 in if sint newVal < - (2 ^ 31) \<or> 2 ^ 31 - 1 < sint newVal
                    then fatalErrorEarly
                           ''Pseudo-reloc: 32-bit relocation overflow. Address delta exceeds INT32 range.''
                           st'
                    else Returns True (st'\<lparr>memory_of := store32 m targetAddr (ucast newVal)\<rparr>)
               else if sz = kRelocFlagSize64 then
                 Returns True
                   (st'\<lparr>memory_of := store64 m targetAddr (load64 m targetAddr + delta)\<rparr>)
               else Returns False st'
             else Returns False st')"

text \<open>
  The two \<open>while (reloc < relocEnd)\<close> loops. The pointer advances by the size of one
  record (12 and 8 bytes); each record is read from memory when its turn comes. A loop
  that does not come to an end has the value \<open>None\<close>.
\<close>

partial_function (option) relocV2_loop ::
  "'os os_api \<Rightarrow> addr \<Rightarrow> addr \<Rightarrow> addr \<Rightarrow> 'os reloc_state
     \<Rightarrow> (unit, 'os reloc_state) outcome option" where
  "relocV2_loop api base reloc relocEnd st =
     (if reloc < relocEnd
      then case applyRelocV2 api base (read_PseudoRelocV2 (memory_of st) reloc) st of
             Terminated how st' \<Rightarrow> Some (Terminated how st')
           | Returns applied st' \<Rightarrow> relocV2_loop api base (reloc + 12) relocEnd st'
      else Some (Returns () st))"


text \<open>The body of the V1 loop: always a 32-bit add of the record's addend.\<close>

definition applyRelocV1 ::
  "'os os_api \<Rightarrow> addr \<Rightarrow> PseudoRelocV1 \<Rightarrow> 'os reloc_state \<Rightarrow> (unit, 'os reloc_state) outcome" where
  "applyRelocV1 api base reloc st =
     (let targetAddr = base + ucast (v1_target reloc)
      in case makeWritable api targetAddr 4 st of
           Terminated how st' \<Rightarrow> Terminated how st'
         | Returns writable st' \<Rightarrow>
             if writable then
               let m = memory_of st'
               in Returns ()
                    (st'\<lparr>memory_of := store32 m targetAddr (load32 m targetAddr + v1_addend reloc)\<rparr>)
             else Returns () st')"

partial_function (option) relocV1_loop ::
  "'os os_api \<Rightarrow> addr \<Rightarrow> addr \<Rightarrow> addr \<Rightarrow> 'os reloc_state
     \<Rightarrow> (unit, 'os reloc_state) outcome option" where
  "relocV1_loop api base reloc relocEnd st =
     (if reloc < relocEnd
      then case applyRelocV1 api base (read_PseudoRelocV1 (memory_of st) reloc) st of
             Terminated how st' \<Rightarrow> Some (Terminated how st')
           | Returns u st' \<Rightarrow> relocV1_loop api base (reloc + 8) relocEnd st'
      else Some (Returns () st))"

definition restore_after ::
  "'os os_api \<Rightarrow> (unit, 'os reloc_state) outcome option
     \<Rightarrow> (unit, 'os reloc_state) outcome option" where
  "restore_after api r =
     (case r of
        None \<Rightarrow> None
      | Some (Terminated how st') \<Rightarrow> Some (Terminated how st')
      | Some (Returns u st') \<Rightarrow> Some (Returns () (restoreProtections api st')))"

definition doPseudoReloc ::
  "'os os_api \<Rightarrow> addr \<Rightarrow> addr \<Rightarrow> addr \<Rightarrow> 'os reloc_state
     \<Rightarrow> (unit, 'os reloc_state) outcome option" where
  "doPseudoReloc api start stop base st =
     (if stop \<le> start then Some (Returns () st)
      else let magic1 = load32 (memory_of st) start;
               magic2 = load32 (memory_of st) (start + 4)
           in if magic1 = 0 \<and> magic2 = 0
              then let version = load32 (memory_of st) (start + 8)
                   in if version \<noteq> 1 then Some (Returns () st)
                      else restore_after api (relocV2_loop api base (start + 12) stop st)
              else restore_after api (relocV1_loop api base start stop st))"

section \<open>Initialization and entry points (crt_windows_init.cpp, crt_windows.cpp)\<close>

text \<open>
  The orchestrator calls into other translation units and into user code. The model is
  over a process state \<open>'s\<close> on which these callees act, and it keeps a trace: every call
  the CRT makes appends one event, in the order the calls are made.
\<close>

datatype event =
    EvPseudoReloc
  | EvSecurityInitCookie
  | EvFpreset
  | EvCInit nat
  | EvCtor nat
  | EvCxaFinalize addr
  | EvPreterm nat
  | EvTerm nat
  | EvDllMain DWORD addr
  | EvDisableThreadLibraryCalls

datatype init_once = Uninitialized | Done

record 's crt_state =
  trace :: "event list"
  g_commonInitOnce :: init_once
  proc :: 's

text \<open>
  A slot of a CRT section array is a nullable function pointer: \<open>_PVFV\<close> is
  \<open>void (*)(void)\<close>, \<open>_PIFV\<close> is \<open>int (*)(void)\<close>.
\<close>

type_synonym 's PVFV = "('s \<Rightarrow> 's) option"
type_synonym 's PIFV = "('s \<Rightarrow> c_int \<times> 's) option"

datatype RuntimeError = SpaceArg | SpaceEnv | Heap | CrtInit | Banner | InternalErr | PseudoReloc

fun RuntimeError_code :: "RuntimeError \<Rightarrow> int" where
  "RuntimeError_code SpaceArg = 8"
| "RuntimeError_code SpaceEnv = 9"
| "RuntimeError_code Heap = 28"
| "RuntimeError_code CrtInit = 27"
| "RuntimeError_code Banner = 24"
| "RuntimeError_code InternalErr = 30"
| "RuntimeError_code PseudoReloc = 31"

definition fatalError :: "RuntimeError \<Rightarrow> 's \<Rightarrow> ('a, 's) outcome" where
  "fatalError errCode st = Terminated (AmsgExit (RuntimeError_code errCode)) st"

definition kDllThreadAttach :: DWORD where "kDllThreadAttach = 2"
definition kDllThreadDetach :: DWORD where "kDllThreadDetach = 3"

definition TRUE :: c_int where "TRUE = 1"

text \<open>
  What the module is linked with: the callees of other translation units
  (\<open>runPseudoRelocator\<close>, \<open>securityInitCookie\<close>, UCRT's \<open>_fpreset\<close>), the four section
  arrays between their sentinels, the weak \<open>__cxa_finalize\<close> (absent when libc++abi is not
  linked), \<open>__dso_handle\<close>, the user's \<open>DllMain\<close>, the exported flag
  \<open>_crt_enable_thread_notifications\<close> and kernel32's \<open>DisableThreadLibraryCalls\<close>.
\<close>

record 's crt_env =
  runPseudoRelocator :: "'s \<Rightarrow> (unit, 's) outcome"
  securityInitCookie :: "'s \<Rightarrow> 's"
  fpreset :: "'s \<Rightarrow> 's"
  xi :: "'s PIFV list"
  xc :: "'s PVFV list"
  xp :: "'s PVFV list"
  xt :: "'s PVFV list"
  cxa_finalize :: "(addr \<Rightarrow> 's \<Rightarrow> 's) option"
  dso_handle :: addr
  DllMain :: "addr \<Rightarrow> DWORD \<Rightarrow> addr \<Rightarrow> 's \<Rightarrow> c_int \<times> 's"
  crt_enable_thread_notifications :: "'s \<Rightarrow> c_int"
  DisableThreadLibraryCalls :: "addr \<Rightarrow> 's \<Rightarrow> 's"

definition call :: "event \<Rightarrow> ('s \<Rightarrow> 's) \<Rightarrow> 's crt_state \<Rightarrow> 's crt_state" where
  "call ev f st = st\<lparr>trace := trace st @ [ev], proc := f (proc st)\<rparr>"

text \<open>
  \<open>initterm\<close> and \<open>initterm_e\<close> walk the slots from \<open>first\<close> up to \<open>last\<close>; \<open>i\<close> is the
  index of the slot at the head of the list, and \<open>ev\<close> names the array in the trace.
\<close>

fun initterm :: "(nat \<Rightarrow> event) \<Rightarrow> nat \<Rightarrow> 's PVFV list \<Rightarrow> 's crt_state \<Rightarrow> 's crt_state" where
  "initterm ev i [] st = st"
| "initterm ev i (fn # fns) st =
     (case fn of
        None \<Rightarrow> initterm ev (Suc i) fns st
      | Some f \<Rightarrow> initterm ev (Suc i) fns (call (ev i) f st))"

fun initterm_e ::
  "(nat \<Rightarrow> event) \<Rightarrow> nat \<Rightarrow> 's PIFV list \<Rightarrow> 's crt_state \<Rightarrow> c_int \<times> 's crt_state" where
  "initterm_e ev i [] st = (0, st)"
| "initterm_e ev i (fn # fns) st =
     (case fn of
        None \<Rightarrow> initterm_e ev (Suc i) fns st
      | Some f \<Rightarrow>
          let ret = fst (f (proc st));
              st' = call (ev i) (\<lambda>s. snd (f s)) st
          in if ret \<noteq> 0 then (ret, st') else initterm_e ev (Suc i) fns st')"

definition commonInitCallback :: "'s crt_env \<Rightarrow> 's crt_state \<Rightarrow> (c_int, 's crt_state) outcome" where
  "commonInitCallback env st =
     (case runPseudoRelocator env (proc st) of
        Terminated how s \<Rightarrow> Terminated how (st\<lparr>trace := trace st @ [EvPseudoReloc], proc := s\<rparr>)
      | Returns u s \<Rightarrow>
          let st1 = st\<lparr>trace := trace st @ [EvPseudoReloc], proc := s\<rparr>;
              st2 = call EvSecurityInitCookie (securityInitCookie env) st1;
              st3 = call EvFpreset (fpreset env) st2;
              r = initterm_e EvCInit 0 (xi env) st3
          in if fst r \<noteq> 0 then fatalError CrtInit (snd r)
             else Returns TRUE (initterm EvCtor 0 (xc env) (snd r)))"







text \<open>
  The indices of the non-null slots of an array whose first slot has index \<open>i\<close>: the
  slots a complete walk calls, in the order it calls them.
\<close>

fun nonnull_slots :: "nat \<Rightarrow> 'a option list \<Rightarrow> nat list" where
  "nonnull_slots i [] = []"
| "nonnull_slots i (None # fns) = nonnull_slots (Suc i) fns"
| "nonnull_slots i (Some f # fns) = i # nonnull_slots (Suc i) fns"



section \<open>Concrete images and environments\<close>


text \<open>
  An image loaded at \<open>0x140000000\<close>. The import slot at offset \<open>0x2000\<close> holds the address
  \<open>0x140002010\<close>, so the delta of every relocation against it is \<open>0x10\<close>. Two 32-bit
  targets lie in the page at offset \<open>0x1000\<close>, at offsets \<open>0x1000\<close> and \<open>0x1008\<close>, holding
  \<open>v1\<close> and \<open>v2\<close>. The relocation list at offset \<open>0x3000\<close> is a V2 header (0, 0, 1) and one
  record of size class 32 for each target.
\<close>

definition ex_image :: "32 word \<Rightarrow> 32 word \<Rightarrow> memory" where
  "ex_image v1 v2 =
     store32 (store32 (store32
    (store32 (store32 (store32
    (store32 (store32 (store32
    (store64 (store32 (store32 (\<lambda>a. 0)
       0x140001000 v1) 0x140001008 v2) 0x140002000 0x140002010)
       0x140003000 0) 0x140003004 0) 0x140003008 1)
       0x14000300C 0x2000) 0x140003010 0x1000) 0x140003014 32)
       0x140003018 0x2000) 0x14000301C 0x1008) 0x140003020 32"

definition ex_list :: addr where "ex_list = 0x140003000"
definition ex_list_end :: addr where "ex_list_end = 0x140003024"

definition ex_image_state :: "32 word \<Rightarrow> 32 word \<Rightarrow> 'os \<Rightarrow> 'os reloc_state" where
  "ex_image_state v1 v2 os =
     \<lparr>memory_of = ex_image v1 v2, os_of = os, g_modifiedSections = [], debug_output = []\<rparr>"

text \<open>The page of the two targets is committed and read-only.\<close>

definition ex_pages :: page_table where
  "ex_pages = Map.empty(0x140001 \<mapsto> kPageReadonly)"

definition ex_sections1 :: "ModifiedSection list" where
  "ex_sections1 = [\<lparr>ms_address = 0x140001000, ms_size = 4, ms_oldProtect = kPageReadonly\<rparr>]"

definition ex_sections2 :: "ModifiedSection list" where
  "ex_sections2 =
     ex_sections1 @ [\<lparr>ms_address = 0x140001008, ms_size = 4, ms_oldProtect = kPageReadwrite\<rparr>]"

definition ex_reloc1 :: PseudoRelocV2 where
  "ex_reloc1 = \<lparr>v2_sym = 0x2000, v2_target = 0x1000, v2_flags = 32\<rparr>"

definition ex_reloc2 :: PseudoRelocV2 where
  "ex_reloc2 = \<lparr>v2_sym = 0x2000, v2_target = 0x1008, v2_flags = 32\<rparr>"

text \<open>Cookie states and entropy for the concrete runs.\<close>

definition ex_entropy32 :: "32 word entropy" where
  "ex_entropy32 =
     \<lparr>systime_dwLowDateTime = 0, systime_dwHighDateTime = 0, CurrentThreadId = 0,
      CurrentProcessId = 0, TickCount64 = 0, perfctr_LowPart = 0, perfctr_HighPart = 0,
      stack_address = 0x0012FF00\<rparr>"

definition ex_entropy64 :: "64 word entropy" where
  "ex_entropy64 =
     \<lparr>systime_dwLowDateTime = 0, systime_dwHighDateTime = 0, CurrentThreadId = 0,
      CurrentProcessId = 0, TickCount64 = 0, perfctr_LowPart = 0, perfctr_HighPart = 0,
      stack_address = 0x000000000012FF00\<rparr>"

definition ex_seeded32 :: "32 word \<Rightarrow> 32 word cookie_state" where
  "ex_seeded32 c = \<lparr>security_cookie = c, security_cookie_complement = NOT c\<rparr>"

definition ex_seeded64 :: "64 word \<Rightarrow> 64 word cookie_state" where
  "ex_seeded64 c = \<lparr>security_cookie = c, security_cookie_complement = NOT c\<rparr>"

text \<open>
  A module whose callbacks write their own number to a log. \<open>ex_env r\<close> has three
  C initializers after the null sentinel, the second returning \<open>r\<close>; one constructor, one
  pre-terminator and one terminator; and libc++abi linked.
\<close>

definition ex_env :: "c_int \<Rightarrow> nat list crt_env" where
  "ex_env r =
     \<lparr>runPseudoRelocator = (\<lambda>s. Returns () s),
      securityInitCookie = (\<lambda>s. s),
      fpreset = (\<lambda>s. s),
      xi = [None, Some (\<lambda>s. (0, s @ [1])), Some (\<lambda>s. (r, s @ [2])), Some (\<lambda>s. (0, s @ [3]))],
      xc = [None, Some (\<lambda>s. s @ [10])],
      xp = [None, Some (\<lambda>s. s @ [20])],
      xt = [None, Some (\<lambda>s. s @ [30])],
      cxa_finalize = Some (\<lambda>dso s. s @ [40]),
      dso_handle = 0x140004000,
      DllMain = (\<lambda>hinstDLL fdwReason lpvReserved s. (1, s @ [50])),
      crt_enable_thread_notifications = (\<lambda>s. 0),
      DisableThreadLibraryCalls = (\<lambda>hinstDLL s. s)\<rparr>"

definition ex_start :: "nat list crt_state" where
  "ex_start = \<lparr>trace = [], g_commonInitOnce = Uninitialized, proc = []\<rparr>"

section \<open>Properties of the security cookie\<close>

lemma repair_bit: "bit ((c::32 word) OR push_bit 16 (c OR 0x4711)) 16"
  by (simp add: bit_simps)

lemma repair_ne_default: "(c::32 word) OR push_bit 16 (c OR 0x4711) \<noteq> DefaultSecurityCookie32"
proof
  assume "c OR push_bit 16 (c OR 0x4711) = DefaultSecurityCookie32"
  then have "bit DefaultSecurityCookie32 16"
    using repair_bit [of c] by simp
  then show False
    by (simp add: DefaultSecurityCookie32_def)
qed

lemma repair_high_word: "((c::32 word) OR push_bit 16 (c OR 0x4711)) AND 0xFFFF0000 \<noteq> 0"
proof
  assume "(c OR push_bit 16 (c OR 0x4711)) AND 0xFFFF0000 = 0"
  then have "\<not> bit ((c OR push_bit 16 (c OR 0x4711)) AND 0xFFFF0000) 16"
    by simp
  moreover have "bit (0xFFFF0000 :: 32 word) 16" by simp
  ultimately show False
    using repair_bit [of c] by (simp add: bit_and_iff)
qed

lemma validated_32:
  "already_initialized_32 a
     (if c = DefaultSecurityCookie32 then DefaultSecurityCookie32 + 1
      else if c AND 0xFFFF0000 = 0 then c OR push_bit 16 (c OR 0x4711)
      else c)"
proof (cases "c = DefaultSecurityCookie32")
  case True
  then show ?thesis
    by (simp add: already_initialized_32_def DefaultSecurityCookie32_def)
next
  case False
  show ?thesis
  proof (cases "c AND 0xFFFF0000 = 0")
    case True
    with False show ?thesis
      unfolding already_initialized_32_def
      using repair_ne_default [of c] repair_high_word [of c]
      by (simp del: push_bit_or)
  next
    case hi: False
    with False show ?thesis
      by (simp add: already_initialized_32_def)
  qed
qed

text \<open>Whatever \<open>__security_init_cookie\<close> computes passes its own "already initialized" test.\<close>

lemma gather_entropy_32_initialized: "already_initialized_32 a (gather_entropy_32 e)"
  unfolding gather_entropy_32_def Let_def by (rule validated_32)

lemma gather_entropy_64_not_default: "gather_entropy_64 e \<noteq> DefaultSecurityCookie64"
  by (simp add: gather_entropy_64_def Let_def DefaultSecurityCookie64_def)

lemma complement_64:
  "security_cookie_complement (security_init_cookie_64 e st) =
     NOT (security_cookie (security_init_cookie_64 e st))"
  by (simp add: security_init_cookie_64_def Let_def)

lemma complement_32:
  "security_cookie_complement (security_init_cookie_32 a e st) =
     NOT (security_cookie (security_init_cookie_32 a e st))"
  by (simp add: security_init_cookie_32_def Let_def)

lemma keeps_64:
  "security_cookie st \<noteq> DefaultSecurityCookie64 \<Longrightarrow>
   security_cookie (security_init_cookie_64 e st) = security_cookie st"
  by (simp add: security_init_cookie_64_def)

lemma keeps_32:
  "already_initialized_32 a (security_cookie st) \<Longrightarrow>
   security_cookie (security_init_cookie_32 a e st) = security_cookie st"
  by (simp add: security_init_cookie_32_def)

lemma second_call_64:
  "security_cookie (security_init_cookie_64 e' (security_init_cookie_64 e st)) =
     security_cookie (security_init_cookie_64 e st)"
  using gather_entropy_64_not_default [of e]
  by (intro keeps_64) (simp add: security_init_cookie_64_def Let_def)

lemma second_call_32:
  "security_cookie (security_init_cookie_32 a e' (security_init_cookie_32 a e st)) =
     security_cookie (security_init_cookie_32 a e st)"
  using gather_entropy_32_initialized [of a e]
  by (intro keeps_32) (simp add: security_init_cookie_32_def Let_def)

text \<open>
  C6, as amended. After every call of \<open>__security_init_cookie\<close> the complement is the
  bitwise NOT of the cookie, on the 64-bit and on the 32-bit builds. A cookie that differs
  from the default value is left as it is, where on x86 it must also have a non-zero high
  16-bit word (x86 treats a zero high word as not initialized and computes a new cookie).
  A second call never changes what the first call left.
\<close>

theorem security_init_cookie_invariant:
  "security_cookie_complement (security_init_cookie_64 e st) =
     NOT (security_cookie (security_init_cookie_64 e st))
   \<and> security_cookie_complement (security_init_cookie_32 a e32 st32) =
     NOT (security_cookie (security_init_cookie_32 a e32 st32))
   \<and> (security_cookie st \<noteq> DefaultSecurityCookie64 \<longrightarrow>
        security_cookie (security_init_cookie_64 e st) = security_cookie st)
   \<and> (security_cookie st32 \<noteq> DefaultSecurityCookie32 \<and>
        (a = X86 \<longrightarrow> security_cookie st32 AND 0xFFFF0000 \<noteq> 0) \<longrightarrow>
        security_cookie (security_init_cookie_32 a e32 st32) = security_cookie st32)
   \<and> security_cookie (security_init_cookie_64 e' (security_init_cookie_64 e st)) =
        security_cookie (security_init_cookie_64 e st)
   \<and> security_cookie (security_init_cookie_32 a e32' (security_init_cookie_32 a e32 st32)) =
        security_cookie (security_init_cookie_32 a e32 st32)"
proof -
  have "security_cookie st32 \<noteq> DefaultSecurityCookie32 \<and>
        (a = X86 \<longrightarrow> security_cookie st32 AND 0xFFFF0000 \<noteq> 0) \<longrightarrow>
        security_cookie (security_init_cookie_32 a e32 st32) = security_cookie st32"
    using keeps_32 [of a st32 e32] by (auto simp: already_initialized_32_def)
  then show ?thesis
    using complement_64 complement_32 keeps_64 second_call_64 second_call_32 by blast
qed

theorem security_init_cookie_invariant_witness:
  "security_cookie (ex_seeded64 0x1234) \<noteq> DefaultSecurityCookie64
   \<and> security_cookie (security_init_cookie_64 ex_entropy64 (ex_seeded64 0x1234)) = 0x1234
   \<and> security_cookie (ex_seeded32 0x12345678) \<noteq> DefaultSecurityCookie32
   \<and> security_cookie (ex_seeded32 0x12345678) AND 0xFFFF0000 \<noteq> 0
   \<and> security_cookie (security_init_cookie_32 X86 ex_entropy32 (ex_seeded32 0x12345678)) = 0x12345678
   \<and> security_cookie_complement (security_init_cookie_32 X86 ex_entropy32 (ex_seeded32 0x12345678))
       = NOT 0x12345678"
  using security_init_cookie_invariant
          [of ex_entropy64 "ex_seeded64 0x1234" X86 ex_entropy32 "ex_seeded32 0x12345678"]
  by (simp add: ex_seeded64_def ex_seeded32_def DefaultSecurityCookie64_def
      DefaultSecurityCookie32_def)

text \<open>
  C6 as stated fails on x86: a cookie seeded with \<open>0x00001234\<close> differs from the default
  value, and the next call replaces it.
\<close>

theorem security_init_cookie_x86_counterexample:
  "security_cookie (ex_seeded32 0x1234) = 0x1234
   \<and> security_cookie (ex_seeded32 0x1234) \<noteq> DefaultSecurityCookie32
   \<and> security_cookie (security_init_cookie_32 X86 ex_entropy32 (ex_seeded32 0x1234)) = 0x0012FF00"
  by (simp add: security_init_cookie_32_def already_initialized_32_def ex_seeded32_def
      DefaultSecurityCookie32_def gather_entropy_32_def ex_entropy32_def Let_def)

text \<open>
  C7. \<open>__security_check_cookie\<close> returns exactly when its argument equals the stored
  cookie; on any other argument it ends in \<open>__report_gsfailure\<close>, that is in
  \<open>__fastfail(FastFailStackCookieCheckFailure)\<close>, with the state untouched.
\<close>

theorem security_check_cookie_iff:
  "((\<exists>st'. security_check_cookie st c = Returns () st') \<longleftrightarrow> c = security_cookie st)
   \<and> (c = security_cookie st \<longrightarrow> security_check_cookie st c = Returns () st)
   \<and> (c \<noteq> security_cookie st \<longrightarrow>
        security_check_cookie st c = report_gsfailure st \<and>
        report_gsfailure st = Terminated (FastFail 2) st)"
  by (simp add: security_check_cookie_def report_gsfailure_def
      FastFailStackCookieCheckFailure_def Let_def)

theorem security_check_cookie_iff_witness:
  "security_check_cookie (ex_seeded64 0x1234) 0x1234 = Returns () (ex_seeded64 0x1234)
   \<and> (0x1235 :: 64 word) \<noteq> security_cookie (ex_seeded64 0x1234)
   \<and> security_check_cookie (ex_seeded64 0x1234) 0x1235
       = Terminated (FastFail 2) (ex_seeded64 0x1234)"
  using security_check_cookie_iff [of "ex_seeded64 0x1234" "0x1234"]
        security_check_cookie_iff [of "ex_seeded64 0x1234" "0x1235"]
  by (simp add: ex_seeded64_def)

section \<open>Properties of the TLS directory\<close>

text \<open>
  C10, as amended. On every target the record has the six members start-of-template,
  end-of-template, address-of-index-cell, address-of-callback-array, size-of-zero-fill and
  characteristics, in this order; the four address members have the pointer width of the
  target; size-of-zero-fill and characteristics are 32 bits wide on every target; and
  \<open>_tls_used\<close> sets both of them to zero.
\<close>

theorem tls_directory_layout:
  "map fst (CRT_IMAGE_TLS_DIRECTORY a) =
     [''StartAddressOfRawData'', ''EndAddressOfRawData'', ''AddressOfIndex'',
      ''AddressOfCallBacks'', ''SizeOfZeroFill'', ''Characteristics'']
   \<and> map (\<lambda>member. c_type_bits (snd member)) (CRT_IMAGE_TLS_DIRECTORY a) =
     [pointer_bits a, pointer_bits a, pointer_bits a, pointer_bits a, 32, 32]
   \<and> length tls_used = length (CRT_IMAGE_TLS_DIRECTORY a)
   \<and> drop 4 tls_used = [Constant 0, Constant 0]"
  by (simp add: CRT_IMAGE_TLS_DIRECTORY_def pointer_bits_def tls_used_def)

text \<open>
  C10 as stated fails on the 64-bit targets: size-of-zero-fill is a \<open>DWORD\<close>, 32 bits wide,
  where pointers are 64 bits wide.
\<close>

theorem tls_directory_width_counterexample:
  "fst (CRT_IMAGE_TLS_DIRECTORY X64 ! 4) = ''SizeOfZeroFill''
   \<and> c_type_bits (snd (CRT_IMAGE_TLS_DIRECTORY X64 ! 4)) = 32
   \<and> pointer_bits X64 = 64"
  by (simp add: CRT_IMAGE_TLS_DIRECTORY_def pointer_bits_def)


section \<open>Properties of the pseudo-relocation processor\<close>

subsection \<open>Signed arithmetic of the overflow check\<close>

lemma sint_scast_32_64: "sint (scast (v :: 32 word) :: 64 word) = sint v"
  by (simp add: sint_up_scast is_up)


lemma sint32_bounds: "- (2 ^ 31) \<le> sint (v :: 32 word) \<and> sint v < 2 ^ 31"
  using sint_ge [of v] sint_lt [of v] by simp

lemma sint64_bounds: "- (2 ^ 63) \<le> sint (v :: 64 word) \<and> sint v < 2 ^ 63"
  using sint_ge [of v] sint_lt [of v] by simp

lemma sint_add_64_mod:
  fixes a b :: "64 word"
  shows "sint (a + b) = (sint a + sint b + 2 ^ 63) mod 2 ^ 64 - 2 ^ 63"
  by (simp add: sint_word_ariths signed_take_bit_eq_take_bit_shift take_bit_eq_mod)

lemma int_mod_below:
  fixes x m :: int
  assumes "x < 0" "- m \<le> x"
  shows "x mod m = x + m"
proof -
  have "x mod m = (x + m) mod m" by simp
  also have "\<dots> = x + m"
    using assms by (intro mod_pos_pos_trivial) simp_all
  finally show ?thesis .
qed

lemma int_mod_above:
  fixes x m :: int
  assumes "m \<le> x" "x < 2 * m"
  shows "x mod m = x - m"
proof -
  have "x mod m = (x - m) mod m" by simp
  also have "\<dots> = x - m"
    using assms by (intro mod_pos_pos_trivial) simp_all
  finally show ?thesis .
qed

text \<open>
  \<open>newVal\<close> is the sum of the sign-extended 32-bit value and the 64-bit delta, computed
  in 64 bits. It is the mathematical sum, or it wrapped around once.
\<close>

lemma newVal_cases:
  fixes v :: "32 word" and d :: "64 word"
  defines "S \<equiv> sint v + sint d"
  defines "W \<equiv> sint ((scast v :: 64 word) + d)"
  shows "W = S \<or> (W = S - 2 ^ 64 \<and> 2 ^ 63 \<le> S) \<or> (W = S + 2 ^ 64 \<and> S < - (2 ^ 63))"
proof -
  have W: "W = (S + 2 ^ 63) mod 2 ^ 64 - 2 ^ 63"
    unfolding W_def S_def by (simp add: sint_add_64_mod sint_scast_32_64)
  have bv: "- (2 ^ 31) \<le> sint v" "sint v < 2 ^ 31"
    using sint32_bounds [of v] by simp_all
  have bd: "- (2 ^ 63) \<le> sint d" "sint d < 2 ^ 63"
    using sint64_bounds [of d] by simp_all
  let ?x = "S + 2 ^ 63"
  have lo: "- (2 ^ 31) \<le> ?x" and hi: "?x < 2 ^ 64 + 2 ^ 31"
    unfolding S_def using bv bd by simp_all
  consider "0 \<le> ?x" "?x < 2 ^ 64" | "?x < 0" | "2 ^ 64 \<le> ?x"
    by linarith
  then show ?thesis
  proof cases
    case 1
    then have "?x mod 2 ^ 64 = ?x" by simp
    with W show ?thesis by simp
  next
    case 2
    have "?x mod 2 ^ 64 = ?x + 2 ^ 64"
      using 2 lo by (intro int_mod_below) simp_all
    then show ?thesis using W 2 by simp
  next
    case 3
    have "?x mod 2 ^ 64 = ?x - 2 ^ 64"
      using 3 hi by (intro int_mod_above) simp_all
    then show ?thesis using W 3 by simp
  qed
qed

text \<open>The check of the code on the wrapped sum decides the range of the mathematical sum.\<close>

lemma overflow_check_iff:
  fixes v :: "32 word" and d :: "64 word"
  shows "(sint ((scast v :: 64 word) + d) < - (2 ^ 31) \<or> 2 ^ 31 - 1 < sint ((scast v :: 64 word) + d))
     \<longleftrightarrow> (sint v + sint d < - (2 ^ 31) \<or> 2 ^ 31 - 1 < sint v + sint d)"
proof -
  have bv: "- (2 ^ 31) \<le> sint v" "sint v < 2 ^ 31"
    using sint32_bounds [of v] by simp_all
  have bd: "- (2 ^ 63) \<le> sint d" "sint d < 2 ^ 63"
    using sint64_bounds [of d] by simp_all
  show ?thesis
    using newVal_cases [of v d] bv bd by auto
qed

subsection \<open>Loads and stores\<close>

lemma bytes32:
  "(ucast (ucast v :: 8 word) :: 32 word) OR push_bit 8 (ucast (ucast (drop_bit 8 v) :: 8 word))
     OR push_bit 16 (ucast (ucast (drop_bit 16 v) :: 8 word))
     OR push_bit 24 (ucast (ucast (drop_bit 24 v) :: 8 word)) = (v :: 32 word)"
proof (rule bit_word_eqI)
  fix n
  assume "n < LENGTH(32)"
  then have n: "n < 32" by simp
  let ?w = "ucast (ucast v :: 8 word) OR push_bit 8 (ucast (ucast (drop_bit 8 v) :: 8 word))
      OR push_bit 16 (ucast (ucast (drop_bit 16 v) :: 8 word))
      OR push_bit 24 (ucast (ucast (drop_bit 24 v) :: 8 word)) :: 32 word"
  consider "n < 8" | "8 \<le> n" "n < 16" | "16 \<le> n" "n < 24" | "24 \<le> n" "n < 32"
    using n by linarith
  then show "bit ?w n = bit v n"
  proof cases
    case 1
    then show ?thesis by (simp add: bit_simps)
  next
    case 2
    then have "n - 8 < 8" "\<not> 16 \<le> n" by arith+
    with 2 show ?thesis by (simp add: bit_simps)
  next
    case 3
    then have "n - 16 < 8" "\<not> n - 8 < 8" "\<not> 24 \<le> n" by arith+
    with 3 show ?thesis by (simp add: bit_simps)
  next
    case 4
    then have "n - 24 < 8" "\<not> n - 8 < 8" "\<not> n - 16 < 8" by arith+
    with 4 show ?thesis by (simp add: bit_simps)
  qed
qed


lemmas mem_defs = load32_def load64_def store32_def store64_def

lemmas prot_defs = kPageReadonly_def kPageReadwrite_def kPageExecute_def kPageExecuteRead_def
  kPageExecuteReadwrite_def getWritableProtection_def

lemmas paged_defs = paged_os_def paged_VirtualQuery_def paged_VirtualProtect_def page_of_def

subsection \<open>One V2 record of size class 32\<close>

lemma makeWritable_memory:
  "makeWritable api a sz st = Returns ok st' \<Longrightarrow> memory_of st' = memory_of st"
  by (auto simp: makeWritable_def fatalErrorEarly_def Let_def split: if_splits option.splits)

lemma size32_div8: "ucast ((kRelocFlagSize32 :: 32 word) div 8) = (4 :: 64 word)"
  by (simp add: kRelocFlagSize32_def)

lemma applyRelocV2_in_range:
  assumes sz: "v2_flags reloc AND kRelocFlagSizeMask = kRelocFlagSize32"
    and wr: "makeWritable api (base + ucast (v2_target reloc)) 4 st = Returns True st1"
    and lo: "- (2 ^ 31) \<le> sint (load32 (memory_of st) (base + ucast (v2_target reloc)))
                          + sint (reloc_delta (memory_of st) base reloc)"
    and hi: "sint (load32 (memory_of st) (base + ucast (v2_target reloc)))
               + sint (reloc_delta (memory_of st) base reloc) \<le> 2 ^ 31 - 1"
  shows "applyRelocV2 api base reloc st =
      Returns True (st1\<lparr>memory_of := store32 (memory_of st) (base + ucast (v2_target reloc))
         (ucast (scast (load32 (memory_of st) (base + ucast (v2_target reloc)))
                        + reloc_delta (memory_of st) base reloc))\<rparr>)"
proof -
  let ?T = "base + ucast (v2_target reloc)"
  let ?v = "load32 (memory_of st) ?T"
  let ?d = "reloc_delta (memory_of st) base reloc"
  let ?new = "(scast ?v :: 64 word) + ?d"
  have m1: "memory_of st1 = memory_of st"
    using wr by (rule makeWritable_memory)
  have nochk: "\<not> (sint ?new < - (2 ^ 31) \<or> 2 ^ 31 - 1 < sint ?new)"
    using overflow_check_iff [of ?v ?d] lo hi by auto
  show ?thesis
    unfolding applyRelocV2_def Let_def sz size32_div8 wr
    using nochk
    by (simp add: m1 kRelocFlagSize32_def kRelocFlagSize8_def kRelocFlagSize16_def)
qed



subsection \<open>The concrete image\<close>

lemma ex_image_header:
  "load32 (ex_image v1 v2) 0x140003000 = 0"
  "load32 (ex_image v1 v2) 0x140003004 = 0"
  "load32 (ex_image v1 v2) 0x140003008 = 1"
  by (simp_all add: ex_image_def mem_defs)

lemma ex_image_targets:
  "load32 (ex_image v1 v2) 0x140001000 = v1"
  "load32 (ex_image v1 v2) 0x140001008 = v2"
  by (simp_all add: ex_image_def mem_defs bytes32)

lemma ex_entries:
  "read_PseudoRelocV2 (ex_image v1 v2) 0x14000300C = ex_reloc1"
  "read_PseudoRelocV2 (ex_image v1 v2) 0x140003018 = ex_reloc2"
  by (simp_all add: read_PseudoRelocV2_def ex_image_def mem_defs ex_reloc1_def ex_reloc2_def)

lemma ex_image_delta:
  "reloc_delta (ex_image v1 v2) 0x140000000 ex_reloc1 = 0x10"
  "reloc_delta (ex_image v1 v2) 0x140000000 ex_reloc2 = 0x10"
  by (simp_all add: reloc_delta_def ex_image_def mem_defs ex_reloc1_def ex_reloc2_def)

lemma ex_after1:
  "read_PseudoRelocV2 (store32 (ex_image v1 v2) 0x140001000 w) 0x140003018 = ex_reloc2"
  "load32 (store32 (ex_image v1 v2) 0x140001000 w) 0x140001008 = v2"
  "reloc_delta (store32 (ex_image v1 v2) 0x140001000 w) 0x140000000 ex_reloc2 = 0x10"
  by (simp_all add: read_PseudoRelocV2_def reloc_delta_def ex_image_def mem_defs bytes32
      ex_reloc2_def)

lemma ex_flags32:
  "v2_flags ex_reloc1 AND kRelocFlagSizeMask = kRelocFlagSize32"
  "v2_flags ex_reloc2 AND kRelocFlagSizeMask = kRelocFlagSize32"
  by (simp_all add: kRelocFlagSizeMask_def kRelocFlagSize32_def ex_reloc1_def ex_reloc2_def)

lemma ex_targets:
  "(0x140000000 :: addr) + ucast (v2_target ex_reloc1) = 0x140001000"
  "(0x140000000 :: addr) + ucast (v2_target ex_reloc2) = 0x140001008"
  by (simp_all add: ex_reloc1_def ex_reloc2_def)

lemma ex_makeWritable1:
  "makeWritable paged_os 0x140001000 4
     \<lparr>memory_of = m, os_of = ex_pages, g_modifiedSections = [], debug_output = d\<rparr>
   = Returns True
       \<lparr>memory_of = m, os_of = ex_pages(0x140001 \<mapsto> kPageReadwrite),
        g_modifiedSections = ex_sections1, debug_output = d\<rparr>"
  by (simp add: makeWritable_def g_numModifiedSections_def kMaxModifiedSections_def paged_defs
      ex_pages_def prot_defs ex_sections1_def Let_def)

lemma ex_makeWritable2:
  "makeWritable paged_os 0x140001008 4
     \<lparr>memory_of = m, os_of = ex_pages(0x140001 \<mapsto> kPageReadwrite),
      g_modifiedSections = ex_sections1, debug_output = d\<rparr>
   = Returns True
       \<lparr>memory_of = m, os_of = ex_pages(0x140001 \<mapsto> kPageReadwrite),
        g_modifiedSections = ex_sections2, debug_output = d\<rparr>"
  by (simp add: makeWritable_def g_numModifiedSections_def kMaxModifiedSections_def paged_defs
      ex_pages_def prot_defs ex_sections1_def ex_sections2_def Let_def)

lemma ex_restore:
  "restore_each paged_os ex_sections2 (ex_pages(0x140001 \<mapsto> kPageReadwrite)) 0x140001
     = Some kPageReadwrite"
  by (simp add: ex_sections2_def ex_sections1_def paged_defs ex_pages_def prot_defs Let_def)

lemma ex_step1:
  "applyRelocV2 paged_os 0x140000000 ex_reloc1 (ex_image_state 5 v2 ex_pages)
   = Returns True
       \<lparr>memory_of = store32 (ex_image 5 v2) 0x140001000 21,
        os_of = ex_pages(0x140001 \<mapsto> kPageReadwrite),
        g_modifiedSections = ex_sections1, debug_output = []\<rparr>"
proof -
  have wr: "makeWritable paged_os (0x140000000 + ucast (v2_target ex_reloc1)) 4
              (ex_image_state 5 v2 ex_pages)
     = Returns True \<lparr>memory_of = ex_image 5 v2, os_of = ex_pages(0x140001 \<mapsto> kPageReadwrite),
           g_modifiedSections = ex_sections1, debug_output = []\<rparr>"
    unfolding ex_targets ex_image_state_def by (rule ex_makeWritable1)
  have sum: "sint (load32 (memory_of (ex_image_state 5 v2 ex_pages))
                    (0x140000000 + ucast (v2_target ex_reloc1)))
      + sint (reloc_delta (memory_of (ex_image_state 5 v2 ex_pages)) 0x140000000 ex_reloc1) = 21"
    unfolding ex_targets by (simp add: ex_image_state_def ex_image_targets ex_image_delta)
  show ?thesis
    using applyRelocV2_in_range [OF ex_flags32(1) wr] sum
    unfolding ex_targets by (simp add: ex_image_state_def ex_image_targets ex_image_delta)
qed

lemma ex_step2:
  "applyRelocV2 paged_os 0x140000000 ex_reloc2
     \<lparr>memory_of = store32 (ex_image 5 7) 0x140001000 21,
      os_of = ex_pages(0x140001 \<mapsto> kPageReadwrite),
      g_modifiedSections = ex_sections1, debug_output = []\<rparr>
   = Returns True
       \<lparr>memory_of = store32 (store32 (ex_image 5 7) 0x140001000 21) 0x140001008 23,
        os_of = ex_pages(0x140001 \<mapsto> kPageReadwrite),
        g_modifiedSections = ex_sections2, debug_output = []\<rparr>"
proof -
  let ?st = "\<lparr>memory_of = store32 (ex_image 5 7) 0x140001000 21,
        os_of = ex_pages(0x140001 \<mapsto> kPageReadwrite),
        g_modifiedSections = ex_sections1, debug_output = []\<rparr>"
  have wr: "makeWritable paged_os (0x140000000 + ucast (v2_target ex_reloc2)) 4 ?st
     = Returns True \<lparr>memory_of = store32 (ex_image 5 7) 0x140001000 21,
           os_of = ex_pages(0x140001 \<mapsto> kPageReadwrite),
           g_modifiedSections = ex_sections2, debug_output = []\<rparr>"
    unfolding ex_targets by (rule ex_makeWritable2)
  have sum: "sint (load32 (memory_of ?st) (0x140000000 + ucast (v2_target ex_reloc2)))
      + sint (reloc_delta (memory_of ?st) 0x140000000 ex_reloc2) = 23"
    unfolding ex_targets by (simp add: ex_after1)
  show ?thesis
    using applyRelocV2_in_range [OF ex_flags32(2) wr] sum
    unfolding ex_targets by (simp add: ex_after1)
qed



subsection \<open>Claims about the processor\<close>







text \<open>
  C3 does not hold of the code. The list has two records of size class 32 whose targets, at
  offsets \<open>0x1000\<close> and \<open>0x1008\<close>, lie in one read-only page. \<open>makeWritable\<close> tracks the
  four bytes of each target, not the page: the second target is not inside the first
  tracked range, so a second entry is made, and it saves the protection the page has by
  then, \<open>PAGE_READWRITE\<close>. \<open>restoreProtections\<close> walks the table forwards, restores
  \<open>PAGE_READONLY\<close> and then \<open>PAGE_READWRITE\<close>. The pass completes without a fatal error,
  the count is zero, and the page is left writable.
\<close>

theorem doPseudoReloc_same_page_left_writable:
  "ex_pages 0x140001 = Some kPageReadonly \<and>
   (\<exists>st'. doPseudoReloc paged_os ex_list ex_list_end 0x140000000 (ex_image_state 5 7 ex_pages)
            = Some (Returns () st') \<and>
          os_of st' 0x140001 = Some kPageReadwrite \<and>
          g_numModifiedSections st' = 0)"
proof -
  let ?st0 = "ex_image_state 5 7 ex_pages :: page_table reloc_state"
  let ?st1 = "\<lparr>memory_of = store32 (ex_image 5 7) 0x140001000 21,
        os_of = ex_pages(0x140001 \<mapsto> kPageReadwrite),
        g_modifiedSections = ex_sections1, debug_output = []\<rparr>"
  let ?st2 = "\<lparr>memory_of = store32 (store32 (ex_image 5 7) 0x140001000 21) 0x140001008 23,
        os_of = ex_pages(0x140001 \<mapsto> kPageReadwrite),
        g_modifiedSections = ex_sections2, debug_output = []\<rparr>"
  have l3: "relocV2_loop paged_os 0x140000000 0x140003024 0x140003024 ?st2 = Some (Returns () ?st2)"
    by (subst relocV2_loop.simps) simp
  have l2: "relocV2_loop paged_os 0x140000000 0x140003018 0x140003024 ?st1 = Some (Returns () ?st2)"
    by (subst relocV2_loop.simps) (simp add: ex_after1 ex_step2 l3)
  have l1: "relocV2_loop paged_os 0x140000000 0x14000300C 0x140003024 ?st0 = Some (Returns () ?st2)"
    by (subst relocV2_loop.simps)
       (simp add: ex_image_state_def ex_entries ex_step1 [unfolded ex_image_state_def] l2)
  have "doPseudoReloc paged_os ex_list ex_list_end 0x140000000 ?st0
          = Some (Returns () (restoreProtections paged_os ?st2))"
    by (simp add: doPseudoReloc_def ex_list_def ex_list_end_def Let_def ex_image_header
        l1 [unfolded ex_image_state_def] restore_after_def ex_image_state_def)
  moreover have "ex_pages 0x140001 = Some kPageReadonly"
    by (simp add: ex_pages_def)
  ultimately show ?thesis
    by (simp add: restoreProtections_def ex_restore g_numModifiedSections_def)
qed


section \<open>Properties of initialization and of the DLL entry point\<close>


lemma initterm_e_trace:
  "\<exists>ks. prefix ks (nonnull_slots i fns) \<and>
        trace (snd (initterm_e ev i fns st)) = trace st @ map ev ks \<and>
        (if fst (initterm_e ev i fns st) = 0 then ks = nonnull_slots i fns else ks \<noteq> [])"
proof (induction i fns arbitrary: st rule: nonnull_slots.induct)
  case (1 i)
  then show ?case by simp
next
  case (2 i fns)
  from 2 [of st] show ?case by (auto split: if_splits)
next
  case (3 i f fns)
  show ?case
  proof (cases "fst (f (proc st)) = 0")
    case True
    obtain ks where ks: "prefix ks (nonnull_slots (Suc i) fns)"
      "trace (snd (initterm_e ev (Suc i) fns (call (ev i) (\<lambda>s. snd (f s)) st))) =
         trace (call (ev i) (\<lambda>s. snd (f s)) st) @ map ev ks"
      "if fst (initterm_e ev (Suc i) fns (call (ev i) (\<lambda>s. snd (f s)) st)) = 0
       then ks = nonnull_slots (Suc i) fns else ks \<noteq> []"
      using 3 by blast
    show ?thesis
      apply (rule exI [of _ "i # ks"])
      using True ks by (simp add: Let_def call_def split: if_splits)
  next
    case False
    show ?thesis
      apply (rule exI [of _ "[i]"])
      using False by (simp add: Let_def call_def)
  qed
qed

text \<open>A walk over two adjoining ranges stops in the first or goes on into the second.\<close>

lemma initterm_e_append:
  "initterm_e ev i (xs @ ys) st =
     (if fst (initterm_e ev i xs st) \<noteq> 0 then initterm_e ev i xs st
      else initterm_e ev (i + length xs) ys (snd (initterm_e ev i xs st)))"
  by (induction i xs arbitrary: st rule: nonnull_slots.induct) (simp_all add: Let_def)

lemma commonInitCallback_after_reloc:
  assumes "runPseudoRelocator env (proc st) = Returns u s1"
    and "st3 = call EvFpreset (fpreset env)
       (call EvSecurityInitCookie (securityInitCookie env)
          (st\<lparr>trace := trace st @ [EvPseudoReloc], proc := s1\<rparr>))"
  shows "commonInitCallback env st =
            (let r = initterm_e EvCInit 0 (xi env) st3
             in if fst r \<noteq> 0 then fatalError CrtInit (snd r)
                else Returns TRUE (initterm EvCtor 0 (xc env) (snd r)))"
  using assms by (simp add: commonInitCallback_def Let_def)




text \<open>
  C8. Let the startup come to the C initializers, let the non-null slot \<open>k\<close> of the array
  return non-zero, and let the slots before it have returned zero. Then
  \<open>commonInitCallback\<close> ends in \<open>fatalError(RuntimeError::CrtInit)\<close>, that is in UCRT's
  \<open>_amsg_exit(27)\<close>, right after slot \<open>k\<close>: the trace ends with the call of slot \<open>k\<close>, the
  process state is the one slot \<open>k\<close> left, and so no later C initializer and no C++
  constructor has run.
\<close>

theorem cinit_failure_is_fatal:
  assumes reloc: "runPseudoRelocator env (proc st) = Returns u s1"
    and st3: "st3 = call EvFpreset (fpreset env)
       (call EvSecurityInitCookie (securityInitCookie env)
          (st\<lparr>trace := trace st @ [EvPseudoReloc], proc := s1\<rparr>))"
    and k: "k < length (xi env)" "xi env ! k = Some f"
    and before: "initterm_e EvCInit 0 (take k (xi env)) st3 = (0, stk)"
    and fails: "fst (f (proc stk)) \<noteq> 0"
  shows "commonInitCallback env st =
           Terminated (AmsgExit 27)
             (stk\<lparr>trace := trace stk @ [EvCInit k], proc := snd (f (proc stk))\<rparr>)
       \<and> trace stk = trace st @ [EvPseudoReloc, EvSecurityInitCookie, EvFpreset]
                         @ map EvCInit (nonnull_slots 0 (take k (xi env)))"
proof -
  have split: "xi env = take k (xi env) @ Some f # drop (Suc k) (xi env)"
    using k by (metis id_take_nth_drop)
  have len: "length (take k (xi env)) = k"
    using k by simp
  have "initterm_e EvCInit 0 (take k (xi env) @ Some f # drop (Suc k) (xi env)) st3 =
          initterm_e EvCInit k (Some f # drop (Suc k) (xi env)) stk"
    using before len by (simp add: initterm_e_append)
  then have run: "initterm_e EvCInit 0 (xi env) st3 =
          (fst (f (proc stk)), call (EvCInit k) (\<lambda>s. snd (f s)) stk)"
    using split fails by (simp add: Let_def)
  have 1: "commonInitCallback env st =
           Terminated (AmsgExit 27)
             (stk\<lparr>trace := trace stk @ [EvCInit k], proc := snd (f (proc stk))\<rparr>)"
    using commonInitCallback_after_reloc [OF reloc st3] fails
    by (simp add: run fatalError_def call_def)
  obtain ks where ks:
      "trace (snd (initterm_e EvCInit 0 (take k (xi env)) st3)) = trace st3 @ map EvCInit ks"
      "if fst (initterm_e EvCInit 0 (take k (xi env)) st3) = 0
       then ks = nonnull_slots 0 (take k (xi env)) else ks \<noteq> []"
    using initterm_e_trace [of 0 "take k (xi env)" EvCInit st3] by blast
  have 2: "trace stk = trace st @ [EvPseudoReloc, EvSecurityInitCookie, EvFpreset]
                         @ map EvCInit (nonnull_slots 0 (take k (xi env)))"
    using ks before by (simp add: st3 call_def)
  from 1 2 show ?thesis by simp
qed

theorem cinit_failure_is_fatal_witness:
  "xi (ex_env 1) ! 2 = Some (\<lambda>s. (1, s @ [2]))
   \<and> commonInitCallback (ex_env 1) ex_start =
       Terminated (AmsgExit 27)
         \<lparr>trace = [EvPseudoReloc, EvSecurityInitCookie, EvFpreset, EvCInit 1, EvCInit 2],
          g_commonInitOnce = Uninitialized, proc = [1, 2]\<rparr>"
proof -
  let ?st3 = "\<lparr>trace = [EvPseudoReloc, EvSecurityInitCookie, EvFpreset],
                g_commonInitOnce = Uninitialized, proc = []\<rparr> :: nat list crt_state"
  let ?stk = "\<lparr>trace = [EvPseudoReloc, EvSecurityInitCookie, EvFpreset, EvCInit 1],
                g_commonInitOnce = Uninitialized, proc = [1]\<rparr> :: nat list crt_state"
  let ?f = "\<lambda>s :: nat list. (1 :: c_int, s @ [2])"
  have reloc: "runPseudoRelocator (ex_env 1) (proc ex_start) = Returns () []"
    by (simp add: ex_env_def ex_start_def)
  have st3: "?st3 = call EvFpreset (fpreset (ex_env 1))
       (call EvSecurityInitCookie (securityInitCookie (ex_env 1))
          (ex_start\<lparr>trace := trace ex_start @ [EvPseudoReloc], proc := []\<rparr>))"
    by (simp add: ex_env_def ex_start_def call_def)
  have k: "2 < length (xi (ex_env 1))" "xi (ex_env 1) ! 2 = Some ?f"
    by (simp_all add: ex_env_def)
  have "take 2 (xi (ex_env 1)) = [None, Some (\<lambda>s. (0, s @ [1]))]"
    by (simp add: ex_env_def)
  then have before: "initterm_e EvCInit 0 (take 2 (xi (ex_env 1))) ?st3 = (0, ?stk)"
    by (simp add: call_def Let_def)
  have fails: "fst (?f (proc ?stk)) \<noteq> 0"
    by simp
  show ?thesis
    using cinit_failure_is_fatal [OF reloc st3 k before fails] k(2)
    by simp
qed




end
